theory Spec2Isabelle
  imports Main "HOL-Library.Multiset"
begin

section \<open>Data of include/grpc++/impl/call.h\<close>

text \<open>
  Pointers are optional addresses: \<open>None\<close> is \<open>nullptr\<close>. A \<open>grpc_byte_buffer*\<close> is an
  optional buffer identity, a \<open>void*\<close> tag is a number. A \<open>std::multimap\<close> of strings is
  the multiset of its entries; a native metadata array is the list of its entries, its
  \<open>count\<close> being the length of that list.
\<close>

type_synonym addr = nat
type_synonym tag = nat
type_synonym byte_buffer = nat
type_synonym grpc_metadata = "string \<times> string"
type_synonym metadata_map = "(string \<times> string) multiset"
type_synonym grpc_metadata_array = "grpc_metadata list"

text \<open>Dereferencing a null pointer and writing past the end of the operation array.\<close>

datatype error = NullPointer | OutOfBounds

definition bindE :: "error + 'a \<Rightarrow> ('a \<Rightarrow> error + 'b) \<Rightarrow> error + 'b" where
  "bindE x f = (case x of Inl e \<Rightarrow> Inl e | Inr v \<Rightarrow> f v)"

text \<open>
  Modelled from the spec: \<open>Status\<close> is declared in grpc++/status.h. The spec has it as a
  pair (code: enumerated outcome, details: human-readable string), with \<open>(OK, "")\<close> the
  status of a success; \<open>IsOk\<close> holds when the code is \<open>OK\<close>, the enumeration's value 0.
\<close>

record Status =
  code :: int
  details :: string

definition IsOk :: "Status \<Rightarrow> bool" where
  "IsOk s = (code s = 0)"

text \<open>
  The fields of \<open>ClientContext\<close> that the operations reach. A field name of the source
  ends in an underscore, which a name cannot do here: \<open>trailing_metadata_\<close> is
  \<open>trailing_metadata\<close>, and so for the fields of the batch.
\<close>

record ClientContext =
  initial_metadata_received :: bool
  recv_initial_metadata :: metadata_map
  trailing_metadata :: metadata_map

text \<open>
  A pointer to a \<open>std::multimap\<close> is the address of one of the two maps of a context:
  \<open>&context->recv_initial_metadata_\<close> or \<open>&context->trailing_metadata_\<close>.
\<close>

datatype multimap_ptr = RecvInitialMetadataOf addr | TrailingMetadataOf addr

text \<open>Calls to the collaborators that consume a byte buffer, in the order they are made.\<close>

datatype call = Call_grpc_byte_buffer_destroy byte_buffer | Call_Deserialize byte_buffer int

text \<open>
  The memory the operations write through pointers: message objects of type \<open>'r\<close>,
  \<open>Status\<close> objects, client contexts, and the log of collaborator calls.
\<close>

record 'r memory =
  messages :: "addr \<Rightarrow> 'r"
  statuses :: "addr \<Rightarrow> Status"
  contexts :: "addr \<Rightarrow> ClientContext"
  calls :: "call list"

text \<open>\<open>SerializationTraits<R>::Deserialize\<close>: from the buffer, the size bound and the
  message object as it is, the status and the message object as it becomes.\<close>

type_synonym 'r Deserialize = "byte_buffer \<Rightarrow> int \<Rightarrow> 'r \<Rightarrow> Status \<times> 'r"

subsection \<open>Collaborators declared but not defined in call.h\<close>

definition multimap_insert :: "multimap_ptr \<Rightarrow> metadata_map \<Rightarrow> 'r memory \<Rightarrow> 'r memory" where
  "multimap_insert p es m =
     (case p of
        RecvInitialMetadataOf a \<Rightarrow>
          m\<lparr>contexts := (contexts m)
               (a := (contexts m a)\<lparr>recv_initial_metadata :=
                                       recv_initial_metadata (contexts m a) + es\<rparr>)\<rparr>
      | TrailingMetadataOf a \<Rightarrow>
          m\<lparr>contexts := (contexts m)
               (a := (contexts m a)\<lparr>trailing_metadata :=
                                       trailing_metadata (contexts m a) + es\<rparr>)\<rparr>)"

text \<open>
  Modelled from the spec: \<open>FillMetadataMap\<close> is declared in call.h and defined elsewhere.
  The spec has it convert the native array into the caller's metadata destination
  (\<open>fromNativeArray(nativeArray) \<rightarrow> entries\<close>, "filled from the native array on finalize")
  and has the scratch array released by the finalize step: every entry of the array is
  inserted into the destination and the array is left empty. An empty array inserts
  nothing, so it does not reach through the destination pointer; a null destination
  with an entry to insert is a null dereference.
\<close>

definition FillMetadataMap ::
  "grpc_metadata_array \<Rightarrow> multimap_ptr option \<Rightarrow> 'r memory
     \<Rightarrow> error + (grpc_metadata_array \<times> 'r memory)" where
  "FillMetadataMap arr metadata m =
     (if arr = [] then Inr ([], m)
      else case metadata of
             None \<Rightarrow> Inl NullPointer
           | Some p \<Rightarrow> Inr ([], multimap_insert p (mset arr) m))"

text \<open>
  Modelled from the spec: \<open>grpc_byte_buffer_destroy\<close> belongs to the C core. The spec has
  "any allocated receive buffer" released: a null buffer is nothing to release, a
  buffer is released by the call, which the log records.
\<close>

definition grpc_byte_buffer_destroy :: "byte_buffer option \<Rightarrow> 'r memory \<Rightarrow> 'r memory" where
  "grpc_byte_buffer_destroy bb m =
     (case bb of
        None \<Rightarrow> m
      | Some b \<Rightarrow> m\<lparr>calls := calls m @ [Call_grpc_byte_buffer_destroy b]\<rparr>)"

text \<open>
  A call of \<open>Deserialize(buf, message, max_message_size)\<close>: the decoder \<open>D\<close> is the
  parameter \<open>SerializationTraits<R>\<close> of the source; it writes the message object through
  the pointer, so a null \<open>message\<close> is a null dereference.
\<close>

definition call_Deserialize ::
  "'r Deserialize \<Rightarrow> byte_buffer \<Rightarrow> addr option \<Rightarrow> int \<Rightarrow> 'r memory
     \<Rightarrow> error + (Status \<times> 'r memory)" where
  "call_Deserialize D buf message max_message_size m =
     (case message of
        None \<Rightarrow> Inl NullPointer
      | Some a \<Rightarrow>
          (case D buf max_message_size (messages m a) of
             (st, v) \<Rightarrow>
               Inr (st, m\<lparr>messages := (messages m)(a := v),
                          calls := calls m @ [Call_Deserialize buf max_message_size]\<rparr>)))"

subsection \<open>Native operations\<close>

datatype grpc_op_type =
    GRPC_OP_SEND_INITIAL_METADATA
  | GRPC_OP_SEND_MESSAGE
  | GRPC_OP_SEND_CLOSE_FROM_CLIENT
  | GRPC_OP_SEND_STATUS_FROM_SERVER
  | GRPC_OP_RECV_INITIAL_METADATA
  | GRPC_OP_RECV_MESSAGE
  | GRPC_OP_RECV_STATUS_ON_CLIENT

text \<open>
  The member of the union \<open>op->data\<close> that an \<open>AddOp\<close> writes. The receive operations
  store the addresses of the trait's own fields there, which carry no more information
  than the constructor.
\<close>

datatype grpc_op_data =
    data_unset
  | data_send_initial_metadata nat "grpc_metadata list"
  | data_send_message "byte_buffer option"
  | data_send_status_from_server nat "grpc_metadata list" int "string option"
  | data_recv_initial_metadata
  | data_recv_message
  | data_recv_status_on_client

record grpc_op =
  op :: grpc_op_type
  data :: grpc_op_data

subsection \<open>The operation traits\<close>

text \<open>
  One constructor per class, its arguments the class's fields in declaration order:
  \<^item> \<open>CallOpSendInitialMetadata send_ initial_metadata_count_ initial_metadata_\<close>
  \<^item> \<open>CallOpSendMessage send_buf_\<close>
  \<^item> \<open>CallOpRecvMessage got_message message_ recv_buf_\<close>
  \<^item> \<open>CallOpGenericRecvMessage got_message deserialize_ recv_buf_\<close>: \<open>deserialize_\<close> is
    \<open>None\<close> when the \<open>std::function\<close> is empty and \<open>Some message\<close> when it holds the
    closure of \<open>RecvMessage\<close>, which captures the pointer \<open>message\<close>
  \<^item> \<open>CallOpClientSendClose send_\<close>
  \<^item> \<open>CallOpServerSendStatus send_status_available_ send_status_code_
       send_status_details_ trailing_metadata_count_ trailing_metadata_\<close>
  \<^item> \<open>CallOpRecvInitialMetadata recv_initial_metadata_ recv_initial_metadata_arr_\<close>
  \<^item> \<open>CallOpClientRecvStatus recv_trailing_metadata_ recv_status_
       recv_trailing_metadata_arr_ status_code_ status_details_ status_details_capacity_\<close>
\<close>

datatype trait =
    CallNoOp
  | CallOpSendInitialMetadata bool nat "grpc_metadata list"
  | CallOpSendMessage "byte_buffer option"
  | CallOpRecvMessage bool "addr option" "byte_buffer option"
  | CallOpGenericRecvMessage bool "addr option option" "byte_buffer option"
  | CallOpClientSendClose bool
  | CallOpServerSendStatus bool int string nat "grpc_metadata list"
  | CallOpRecvInitialMetadata "multimap_ptr option" grpc_metadata_array
  | CallOpClientRecvStatus "multimap_ptr option" "addr option" grpc_metadata_array
      int "string option" nat

text \<open>
  \<open>AddOp\<close> writes \<open>ops[(*nops)++]\<close>. The array \<open>ops\<close> is the caller's, of a fixed length;
  writing at an index past its end is \<open>OutOfBounds\<close>. (An index inside a C array is below
  \<open>SIZE_MAX\<close>, so the increment of the \<open>size_t\<close> does not wrap.)
\<close>

definition next_op ::
  "grpc_op list \<Rightarrow> nat \<Rightarrow> (grpc_op \<Rightarrow> grpc_op) \<Rightarrow> error + (grpc_op list \<times> nat)" where
  "next_op ops nops f =
     (if nops < length ops then Inr (ops[nops := f (ops ! nops)], Suc nops)
      else Inl OutOfBounds)"

fun AddOp :: "trait \<Rightarrow> grpc_op list \<Rightarrow> nat \<Rightarrow> error + (grpc_op list \<times> nat)" where
  "AddOp CallNoOp ops nops = Inr (ops, nops)"
| "AddOp (CallOpSendInitialMetadata send cnt md) ops nops =
     (if \<not> send then Inr (ops, nops)
      else next_op ops nops
             (\<lambda>x. x\<lparr>op := GRPC_OP_SEND_INITIAL_METADATA, data := data_send_initial_metadata cnt md\<rparr>))"
| "AddOp (CallOpSendMessage send_buf) ops nops =
     (if send_buf = None then Inr (ops, nops)
      else next_op ops nops
             (\<lambda>x. x\<lparr>op := GRPC_OP_SEND_MESSAGE, data := data_send_message send_buf\<rparr>))"
| "AddOp (CallOpRecvMessage got message recv_buf) ops nops =
     (if message = None then Inr (ops, nops)
      else next_op ops nops (\<lambda>x. x\<lparr>op := GRPC_OP_RECV_MESSAGE, data := data_recv_message\<rparr>))"
| "AddOp (CallOpGenericRecvMessage got deserialize recv_buf) ops nops =
     (if deserialize = None then Inr (ops, nops)
      else next_op ops nops (\<lambda>x. x\<lparr>op := GRPC_OP_RECV_MESSAGE, data := data_recv_message\<rparr>))"
| "AddOp (CallOpClientSendClose send) ops nops =
     (if \<not> send then Inr (ops, nops)
      else next_op ops nops (\<lambda>x. x\<lparr>op := GRPC_OP_SEND_CLOSE_FROM_CLIENT\<rparr>))"
| "AddOp (CallOpServerSendStatus avail scode sdetails cnt md) ops nops =
     next_op ops nops
       (\<lambda>x. x\<lparr>op := GRPC_OP_SEND_STATUS_FROM_SERVER,
              data := data_send_status_from_server cnt md scode
                        (if sdetails = [] then None else Some sdetails)\<rparr>)"
| "AddOp (CallOpRecvInitialMetadata rim arr) ops nops =
     (if rim = None then Inr (ops, nops)
      else next_op ops nops
             (\<lambda>x. x\<lparr>op := GRPC_OP_RECV_INITIAL_METADATA, data := data_recv_initial_metadata\<rparr>))"
| "AddOp (CallOpClientRecvStatus rtm rs arr scode sdetails cap) ops nops =
     (if rs = None then Inr (ops, nops)
      else next_op ops nops
             (\<lambda>x. x\<lparr>op := GRPC_OP_RECV_STATUS_ON_CLIENT, data := data_recv_status_on_client\<rparr>))"

text \<open>
  \<open>FinishOp(tag, status, max_message_size)\<close>: from the trait, the flag \<open>*status\<close> and the
  memory, the three as the call leaves them, or the error it stops with.
\<close>

fun FinishOp ::
  "'r Deserialize \<Rightarrow> trait \<Rightarrow> tag \<Rightarrow> bool \<Rightarrow> int \<Rightarrow> 'r memory
     \<Rightarrow> error + (trait \<times> bool \<times> 'r memory)" where
  "FinishOp D CallNoOp tg status mx m = Inr (CallNoOp, status, m)"
| "FinishOp D (CallOpSendInitialMetadata send cnt md) tg status mx m =
     Inr (CallOpSendInitialMetadata send cnt md, status, m)"
| "FinishOp D (CallOpSendMessage send_buf) tg status mx m =
     Inr (CallOpSendMessage send_buf, status, grpc_byte_buffer_destroy send_buf m)"
| "FinishOp D (CallOpRecvMessage got message recv_buf) tg status mx m =
     (if message = None then Inr (CallOpRecvMessage got message recv_buf, status, m)
      else case recv_buf of
             Some b \<Rightarrow>
               if status then
                 bindE (call_Deserialize D b message mx m)
                   (\<lambda>(st, m'). Inr (CallOpRecvMessage True message recv_buf, IsOk st, m'))
               else
                 Inr (CallOpRecvMessage False message recv_buf, status,
                      grpc_byte_buffer_destroy recv_buf m)
           | None \<Rightarrow> Inr (CallOpRecvMessage False message recv_buf, False, m))"
| "FinishOp D (CallOpGenericRecvMessage got deserialize recv_buf) tg status mx m =
     (case deserialize of
        None \<Rightarrow> Inr (CallOpGenericRecvMessage got deserialize recv_buf, status, m)
      | Some message \<Rightarrow>
          (case recv_buf of
             Some b \<Rightarrow>
               if status then
                 bindE (call_Deserialize D b message mx m)
                   (\<lambda>(st, m'). Inr (CallOpGenericRecvMessage True deserialize recv_buf,
                                     IsOk st, m'))
               else
                 Inr (CallOpGenericRecvMessage False deserialize recv_buf, status,
                      grpc_byte_buffer_destroy recv_buf m)
           | None \<Rightarrow> Inr (CallOpGenericRecvMessage False deserialize recv_buf, False, m)))"
| "FinishOp D (CallOpClientSendClose send) tg status mx m =
     Inr (CallOpClientSendClose send, status, m)"
| "FinishOp D (CallOpServerSendStatus avail scode sdetails cnt md) tg status mx m =
     Inr (CallOpServerSendStatus avail scode sdetails cnt md, status, m)"
| "FinishOp D (CallOpRecvInitialMetadata rim arr) tg status mx m =
     bindE (FillMetadataMap arr rim m)
       (\<lambda>(arr', m'). Inr (CallOpRecvInitialMetadata rim arr', status, m'))"
| "FinishOp D (CallOpClientRecvStatus rtm rs arr scode sdetails cap) tg status mx m =
     bindE (FillMetadataMap arr rtm m)
       (\<lambda>(arr', m').
          case rs of
            None \<Rightarrow> Inl NullPointer
          | Some a \<Rightarrow>
              Inr (CallOpClientRecvStatus rtm rs arr' scode sdetails cap, status,
                   m'\<lparr>statuses := (statuses m')
                        (a := \<lparr>code = scode,
                               details = (case sdetails of Some s \<Rightarrow> s | None \<Rightarrow> [])\<rparr>)\<rparr>))"

subsection \<open>Constructors and arming methods\<close>

text \<open>
  A constructor initialises the fields its initialiser list (or \<open>memset\<close>) names; the others
  are indeterminate and are arguments here. \<open>send_status_details_\<close> is a \<open>grpc::string\<close>,
  default-constructed empty.
\<close>

definition new_CallOpSendInitialMetadata :: "nat \<Rightarrow> grpc_metadata list \<Rightarrow> trait" where
  "new_CallOpSendInitialMetadata cnt md = CallOpSendInitialMetadata False cnt md"

definition new_CallOpSendMessage :: trait where
  "new_CallOpSendMessage = CallOpSendMessage None"

definition new_CallOpRecvMessage :: "byte_buffer option \<Rightarrow> trait" where
  "new_CallOpRecvMessage recv_buf = CallOpRecvMessage False None recv_buf"

definition new_CallOpGenericRecvMessage :: "byte_buffer option \<Rightarrow> trait" where
  "new_CallOpGenericRecvMessage recv_buf = CallOpGenericRecvMessage False None recv_buf"

definition new_CallOpClientSendClose :: trait where
  "new_CallOpClientSendClose = CallOpClientSendClose False"

definition new_CallOpServerSendStatus :: "int \<Rightarrow> nat \<Rightarrow> grpc_metadata list \<Rightarrow> trait" where
  "new_CallOpServerSendStatus scode cnt md = CallOpServerSendStatus False scode [] cnt md"

definition new_CallOpRecvInitialMetadata :: trait where
  "new_CallOpRecvInitialMetadata = CallOpRecvInitialMetadata None []"

definition new_CallOpClientRecvStatus :: trait where
  "new_CallOpClientRecvStatus = CallOpClientRecvStatus None None [] 0 None 0"

text \<open>
  Each arming method is a member of its own class (\<open>RecvMessage\<close> of the two receive
  classes), so it has an equation for that class only. \<open>FillMetadataArray\<close> and
  \<open>SerializationTraits<M>::Serialize\<close> are defined outside call.h and are parameters.
\<close>

fun SendInitialMetadata ::
  "(metadata_map \<Rightarrow> grpc_metadata list) \<Rightarrow> metadata_map \<Rightarrow> trait \<Rightarrow> trait" where
  "SendInitialMetadata FillMetadataArray metadata (CallOpSendInitialMetadata send cnt md) =
     CallOpSendInitialMetadata True (size metadata) (FillMetadataArray metadata)"

fun SendMessage ::
  "('m \<Rightarrow> byte_buffer option \<Rightarrow> bool \<times> byte_buffer option) \<Rightarrow> 'm \<Rightarrow> trait
     \<Rightarrow> bool \<times> trait" where
  "SendMessage Serialize message (CallOpSendMessage send_buf) =
     (case Serialize message send_buf of (r, b) \<Rightarrow> (r, CallOpSendMessage b))"

fun RecvMessage :: "addr option \<Rightarrow> trait \<Rightarrow> trait" where
  "RecvMessage message (CallOpRecvMessage got msg recv_buf) =
     CallOpRecvMessage got message recv_buf"
| "RecvMessage message (CallOpGenericRecvMessage got deserialize recv_buf) =
     CallOpGenericRecvMessage got (Some message) recv_buf"

fun ClientSendClose :: "trait \<Rightarrow> trait" where
  "ClientSendClose (CallOpClientSendClose send) = CallOpClientSendClose True"

fun ServerSendStatus ::
  "(metadata_map \<Rightarrow> grpc_metadata list) \<Rightarrow> metadata_map \<Rightarrow> Status \<Rightarrow> trait \<Rightarrow> trait" where
  "ServerSendStatus FillMetadataArray tm status
       (CallOpServerSendStatus avail scode sdetails cnt md) =
     CallOpServerSendStatus True (code status) (details status) (size tm)
       (FillMetadataArray tm)"

text \<open>The two methods that take a \<open>ClientContext*\<close> reach through it: a null context is a
  null dereference.\<close>

fun RecvInitialMetadata ::
  "addr option \<Rightarrow> trait \<Rightarrow> 'r memory \<Rightarrow> error + (trait \<times> 'r memory)" where
  "RecvInitialMetadata context (CallOpRecvInitialMetadata rim arr) m =
     (case context of
        None \<Rightarrow> Inl NullPointer
      | Some c \<Rightarrow>
          Inr (CallOpRecvInitialMetadata (Some (RecvInitialMetadataOf c)) arr,
               m\<lparr>contexts := (contexts m)
                    (c := (contexts m c)\<lparr>initial_metadata_received := True\<rparr>)\<rparr>))"

fun ClientRecvStatus :: "addr option \<Rightarrow> addr option \<Rightarrow> trait \<Rightarrow> error + trait" where
  "ClientRecvStatus context status (CallOpClientRecvStatus rtm rs arr scode sdetails cap) =
     (case context of
        None \<Rightarrow> Inl NullPointer
      | Some c \<Rightarrow>
          Inr (CallOpClientRecvStatus (Some (TrailingMetadataOf c)) status arr scode
                 sdetails cap))"

text \<open>
  A trait is armed when the field that its arming method sets, and that the guards of
  the class test, is set: \<open>send_\<close>, \<open>send_buf_\<close>, \<open>message_\<close>, \<open>deserialize_\<close>,
  \<open>send_status_available_\<close>, \<open>recv_initial_metadata_\<close>, \<open>recv_status_\<close>. \<open>CallNoOp\<close> has no
  arming method.
\<close>

fun armed :: "trait \<Rightarrow> bool" where
  "armed CallNoOp = False"
| "armed (CallOpSendInitialMetadata send cnt md) = send"
| "armed (CallOpSendMessage send_buf) = (send_buf \<noteq> None)"
| "armed (CallOpRecvMessage got message recv_buf) = (message \<noteq> None)"
| "armed (CallOpGenericRecvMessage got deserialize recv_buf) = (deserialize \<noteq> None)"
| "armed (CallOpClientSendClose send) = send"
| "armed (CallOpServerSendStatus avail scode sdetails cnt md) = avail"
| "armed (CallOpRecvInitialMetadata rim arr) = (rim \<noteq> None)"
| "armed (CallOpClientRecvStatus rtm rs arr scode sdetails cap) = (rs \<noteq> None)"

subsection \<open>The batch\<close>

text \<open>\<open>CallOpSet<Op1, ..., Op6>\<close>: the six base sub-objects, the size bound of
  \<open>CallOpSetInterface\<close> and the return tag, which the constructor sets to \<open>this\<close>.\<close>

record CallOpSet =
  max_message_size :: int
  Op1 :: trait
  Op2 :: trait
  Op3 :: trait
  Op4 :: trait
  Op5 :: trait
  Op6 :: trait
  return_tag :: tag

definition new_CallOpSet ::
  "tag \<Rightarrow> trait \<Rightarrow> trait \<Rightarrow> trait \<Rightarrow> trait \<Rightarrow> trait \<Rightarrow> trait \<Rightarrow> CallOpSet" where
  "new_CallOpSet this t1 t2 t3 t4 t5 t6 =
     \<lparr>max_message_size = 0, Op1 = t1, Op2 = t2, Op3 = t3, Op4 = t4, Op5 = t5, Op6 = t6,
      return_tag = this\<rparr>"

definition set_max_message_size :: "int \<Rightarrow> CallOpSet \<Rightarrow> CallOpSet" where
  "set_max_message_size n b = b\<lparr>max_message_size := n\<rparr>"

definition set_output_tag :: "tag \<Rightarrow> CallOpSet \<Rightarrow> CallOpSet" where
  "set_output_tag t b = b\<lparr>return_tag := t\<rparr>"

definition FillOps :: "CallOpSet \<Rightarrow> grpc_op list \<Rightarrow> nat \<Rightarrow> error + (grpc_op list \<times> nat)" where
  "FillOps b ops nops =
     bindE (AddOp (Op1 b) ops nops) (\<lambda>(ops, nops).
     bindE (AddOp (Op2 b) ops nops) (\<lambda>(ops, nops).
     bindE (AddOp (Op3 b) ops nops) (\<lambda>(ops, nops).
     bindE (AddOp (Op4 b) ops nops) (\<lambda>(ops, nops).
     bindE (AddOp (Op5 b) ops nops) (\<lambda>(ops, nops).
     AddOp (Op6 b) ops nops)))))"

text \<open>
  \<open>FinalizeResult(tag, status)\<close> gives the returned flag, the batch, \<open>*tag\<close>, \<open>*status\<close> and
  the memory as it leaves them.
\<close>

definition FinalizeResult ::
  "'r Deserialize \<Rightarrow> CallOpSet \<Rightarrow> tag \<Rightarrow> bool \<Rightarrow> 'r memory
     \<Rightarrow> error + (bool \<times> CallOpSet \<times> tag \<times> bool \<times> 'r memory)" where
  "FinalizeResult D b tg status m =
     bindE (FinishOp D (Op1 b) tg status (max_message_size b) m) (\<lambda>(t1, status, m).
     bindE (FinishOp D (Op2 b) tg status (max_message_size b) m) (\<lambda>(t2, status, m).
     bindE (FinishOp D (Op3 b) tg status (max_message_size b) m) (\<lambda>(t3, status, m).
     bindE (FinishOp D (Op4 b) tg status (max_message_size b) m) (\<lambda>(t4, status, m).
     bindE (FinishOp D (Op5 b) tg status (max_message_size b) m) (\<lambda>(t5, status, m).
     bindE (FinishOp D (Op6 b) tg status (max_message_size b) m) (\<lambda>(t6, status, m).
     Inr (True,
          b\<lparr>Op1 := t1, Op2 := t2, Op3 := t3, Op4 := t4, Op5 := t5, Op6 := t6\<rparr>,
          return_tag b, status, m)))))))"

text \<open>\<open>SneakyCallOpSet::FinalizeResult\<close>: the inherited one, \<open>&& false\<close>.\<close>

definition SneakyFinalizeResult ::
  "'r Deserialize \<Rightarrow> CallOpSet \<Rightarrow> tag \<Rightarrow> bool \<Rightarrow> 'r memory
     \<Rightarrow> error + (bool \<times> CallOpSet \<times> tag \<times> bool \<times> 'r memory)" where
  "SneakyFinalizeResult D b tg status m =
     bindE (FinalizeResult D b tg status m) (\<lambda>(r, rest). Inr (r \<and> False, rest))"

subsection \<open>The slots as a list\<close>

definition slots :: "CallOpSet \<Rightarrow> trait list" where
  "slots b = [Op1 b, Op2 b, Op3 b, Op4 b, Op5 b, Op6 b]"

text \<open>Running \<open>AddOp\<close>, and \<open>FinishOp\<close>, over a list of traits from its head to its end.\<close>

fun AddOps :: "trait list \<Rightarrow> grpc_op list \<Rightarrow> nat \<Rightarrow> error + (grpc_op list \<times> nat)" where
  "AddOps [] ops nops = Inr (ops, nops)"
| "AddOps (t # ts) ops nops = bindE (AddOp t ops nops) (\<lambda>(ops', nops'). AddOps ts ops' nops')"

fun FinishOps ::
  "'r Deserialize \<Rightarrow> trait list \<Rightarrow> tag \<Rightarrow> bool \<Rightarrow> int \<Rightarrow> 'r memory
     \<Rightarrow> error + (trait list \<times> bool \<times> 'r memory)" where
  "FinishOps D [] tg status mx m = Inr ([], status, m)"
| "FinishOps D (t # ts) tg status mx m =
     bindE (FinishOp D t tg status mx m) (\<lambda>(t', status', m').
     bindE (FinishOps D ts tg status' mx m') (\<lambda>(ts', status'', m'').
     Inr (t' # ts', status'', m'')))"

subsection \<open>Notions used in the statements\<close>

text \<open>The public member \<open>got_message\<close> of the two receive classes.\<close>

fun got_message :: "trait \<Rightarrow> bool" where
  "got_message (CallOpRecvMessage got message recv_buf) = got"
| "got_message (CallOpGenericRecvMessage got deserialize recv_buf) = got"

text \<open>
  No pointer that \<open>FinishOp\<close> may reach through is null: the closure of the type-erased
  receive does not hold a null message, a metadata array with entries has a destination,
  and \<open>recv_status_\<close> is set.
\<close>

fun null_safe :: "trait \<Rightarrow> bool" where
  "null_safe (CallOpGenericRecvMessage got deserialize recv_buf) = (deserialize \<noteq> Some None)"
| "null_safe (CallOpRecvInitialMetadata rim arr) = (rim \<noteq> None \<or> arr = [])"
| "null_safe (CallOpClientRecvStatus rtm rs arr scode sdetails cap) =
     ((rtm \<noteq> None \<or> arr = []) \<and> rs \<noteq> None)"
| "null_safe t = True"

text \<open>An entry of the operation array as the caller may pass it in.\<close>

definition blank_op :: grpc_op where
  "blank_op = \<lparr>op = GRPC_OP_SEND_INITIAL_METADATA, data = data_unset\<rparr>"

text \<open>
  What a trait contributes to the operation array: the operation type that its \<open>AddOp\<close>
  writes into a one-element array, or nothing when \<open>AddOp\<close> returns at its guard.
\<close>

definition contributes :: "trait \<Rightarrow> grpc_op_type option" where
  "contributes t =
     (case AddOp t [blank_op] 0 of
        Inl e \<Rightarrow> None
      | Inr (ops', nops') \<Rightarrow> if nops' = 0 then None else Some (op (ops' ! 0)))"

text \<open>
  An arming method called on the batch runs on the base sub-object of one slot,
  \<open>WrapAndDerive<OpI, I>\<close>, and leaves the others as they are.
\<close>

definition arm_slot :: "nat \<Rightarrow> (trait \<Rightarrow> trait) \<Rightarrow> CallOpSet \<Rightarrow> CallOpSet" where
  "arm_slot i f b =
     (if i = 1 then b\<lparr>Op1 := f (Op1 b)\<rparr>
      else if i = 2 then b\<lparr>Op2 := f (Op2 b)\<rparr>
      else if i = 3 then b\<lparr>Op3 := f (Op3 b)\<rparr>
      else if i = 4 then b\<lparr>Op4 := f (Op4 b)\<rparr>
      else if i = 5 then b\<lparr>Op5 := f (Op5 b)\<rparr>
      else if i = 6 then b\<lparr>Op6 := f (Op6 b)\<rparr>
      else b)"

definition arm_all :: "(nat \<times> (trait \<Rightarrow> trait)) list \<Rightarrow> CallOpSet \<Rightarrow> CallOpSet" where
  "arm_all as b = fold (\<lambda>(i, f). arm_slot i f) as b"

text \<open>A concrete memory and a concrete decoder: a buffer decodes to its own number
  unless that exceeds the size bound.\<close>

definition memory0 :: "nat memory" where
  "memory0 =
     \<lparr>messages = (\<lambda>a. 0),
      statuses = (\<lambda>a. \<lparr>code = 0, details = []\<rparr>),
      contexts = (\<lambda>a. \<lparr>initial_metadata_received = False, recv_initial_metadata = {#},
                        trailing_metadata = {#}\<rparr>),
      calls = []\<rparr>"

definition bounded_Deserialize :: "nat Deserialize" where
  "bounded_Deserialize buf mx v =
     (if int buf \<le> mx then (\<lparr>code = 0, details = []\<rparr>, buf)
      else (\<lparr>code = 13, details = ''too large''\<rparr>, v))"

text \<open>
  The position the specification gives each kind of operation in its "fixed slot order"
  (SendInitialMetadata, SendMessage, RecvMessage, ClientSendClose-or-ServerSendStatus,
  RecvInitialMetadata, ClientRecvStatus).
\<close>

fun spec_slot_order :: "grpc_op_type \<Rightarrow> nat" where
  "spec_slot_order GRPC_OP_SEND_INITIAL_METADATA = 1"
| "spec_slot_order GRPC_OP_SEND_MESSAGE = 2"
| "spec_slot_order GRPC_OP_RECV_MESSAGE = 3"
| "spec_slot_order GRPC_OP_SEND_CLOSE_FROM_CLIENT = 4"
| "spec_slot_order GRPC_OP_SEND_STATUS_FROM_SERVER = 4"
| "spec_slot_order GRPC_OP_RECV_INITIAL_METADATA = 5"
| "spec_slot_order GRPC_OP_RECV_STATUS_ON_CLIENT = 6"

text \<open>The slots of class \<open>CallOpServerSendStatus\<close>.\<close>

fun is_CallOpServerSendStatus :: "trait \<Rightarrow> bool" where
  "is_CallOpServerSendStatus (CallOpServerSendStatus avail scode sdetails cnt md) = True"
| "is_CallOpServerSendStatus t = False"

text \<open>What a receive trait shows after \<open>FinishOp\<close>: \<open>got_message\<close> and \<open>*status\<close>.\<close>

definition outcome :: "error + (trait \<times> bool \<times> 'r memory) \<Rightarrow> (bool \<times> bool) option" where
  "outcome r =
     (case r of Inl e \<Rightarrow> None | Inr (t, status, m) \<Rightarrow> Some (got_message t, status))"

text \<open>The operation types of the entries below \<open>*nops\<close> after \<open>FillOps\<close>.\<close>

definition op_types :: "error + (grpc_op list \<times> nat) \<Rightarrow> grpc_op_type list" where
  "op_types r = (case r of Inl e \<Rightarrow> [] | Inr (ops', nops') \<Rightarrow> map op (take nops' ops'))"

section \<open>Properties\<close>

subsection \<open>Sequencing\<close>

lemma bindE_Inl [simp]: "bindE (Inl e) f = Inl e" by (simp add: bindE_def)
lemma bindE_Inr [simp]: "bindE (Inr v) f = f v" by (simp add: bindE_def)
lemma bindE_eq_Inr: "bindE x f = Inr y \<longleftrightarrow> (\<exists>v. x = Inr v \<and> f v = Inr y)"
  by (cases x) simp_all

lemma contributes_simps [simp]:
  "contributes CallNoOp = None"
  "contributes (CallOpSendInitialMetadata send cnt md) =
     (if send then Some GRPC_OP_SEND_INITIAL_METADATA else None)"
  "contributes (CallOpSendMessage send_buf) =
     (if send_buf = None then None else Some GRPC_OP_SEND_MESSAGE)"
  "contributes (CallOpRecvMessage got message recv_buf) =
     (if message = None then None else Some GRPC_OP_RECV_MESSAGE)"
  "contributes (CallOpGenericRecvMessage got deserialize recv_buf) =
     (if deserialize = None then None else Some GRPC_OP_RECV_MESSAGE)"
  "contributes (CallOpClientSendClose send) =
     (if send then Some GRPC_OP_SEND_CLOSE_FROM_CLIENT else None)"
  "contributes (CallOpServerSendStatus avail scode sdetails cnt md) =
     Some GRPC_OP_SEND_STATUS_FROM_SERVER"
  "contributes (CallOpRecvInitialMetadata rim arr) =
     (if rim = None then None else Some GRPC_OP_RECV_INITIAL_METADATA)"
  "contributes (CallOpClientRecvStatus rtm rs arr sc sd cap) =
     (if rs = None then None else Some GRPC_OP_RECV_STATUS_ON_CLIENT)"
  by (simp_all add: contributes_def next_op_def)

lemma AddOp_contributes:
  assumes "AddOp t ops n = Inr (ops', n')"
  shows "case contributes t of
           None \<Rightarrow> ops' = ops \<and> n' = n
         | Some k \<Rightarrow> n < length ops \<and> n' = Suc n \<and>
                     (\<exists>x. ops' = ops[n := x] \<and> op x = k)"
  using assms by (cases t) (auto simp: next_op_def split: if_splits)

lemma AddOp_total:
  "n < length ops \<Longrightarrow> \<exists>ops' n'. AddOp t ops n = Inr (ops', n') \<and> length ops' = length ops \<and> n' \<le> Suc n"
  by (cases t) (auto simp: next_op_def)

lemma AddOps_total:
  "n + length ts \<le> length ops \<Longrightarrow> \<exists>ops' n'. AddOps ts ops n = Inr (ops', n')"
proof (induction ts arbitrary: ops n)
  case Nil
  then show ?case by simp
next
  case (Cons t ts)
  then have "n < length ops" by simp
  from AddOp_total [OF this, of t] obtain ops1 n1 where
    s: "AddOp t ops n = Inr (ops1, n1)" "length ops1 = length ops" "n1 \<le> Suc n" by blast
  with Cons.prems have "n1 + length ts \<le> length ops1" by simp
  from Cons.IH [OF this] s(1) show ?case by simp
qed

lemma AddOps_kinds:
  "AddOps ts ops n = Inr (ops', n') \<Longrightarrow>
     map op (take n' ops') = map op (take n ops) @ List.map_filter contributes ts \<and>
     n' = n + length (List.map_filter contributes ts)"
proof (induction ts arbitrary: ops n)
  case Nil
  then show ?case by (simp add: List.map_filter_simps)
next
  case (Cons t ts)
  from Cons.prems obtain ops1 n1 where
    s: "AddOp t ops n = Inr (ops1, n1)" and r: "AddOps ts ops1 n1 = Inr (ops', n')"
    by (auto simp: bindE_eq_Inr)
  note ih = Cons.IH [OF r]
  show ?case
  proof (cases "contributes t")
    case None
    with AddOp_contributes [OF s] have "ops1 = ops" "n1 = n" by simp_all
    with ih None show ?thesis
      by (auto simp: List.map_filter_simps)
  next
    case (Some k)
    with AddOp_contributes [OF s] obtain x where
      x: "n < length ops" "n1 = Suc n" "ops1 = ops[n := x]" "op x = k" by auto
    then have "take n1 ops1 = take n ops @ [x]"
      by (simp add: take_Suc_conv_app_nth)
    with ih Some x show ?thesis
      by (auto simp: List.map_filter_simps)
  qed
qed

lemma FillOps_slots: "FillOps b ops nops = AddOps (slots b) ops nops"
  by (simp add: FillOps_def slots_def bindE_def split: sum.splits prod.splits)

lemma FinalizeResult_slots:
  "FinalizeResult D b tg status m =
     bindE (FinishOps D (slots b) tg status (max_message_size b) m) (\<lambda>(ts, s', m').
       Inr (True, b\<lparr>Op1 := ts ! 0, Op2 := ts ! 1, Op3 := ts ! 2, Op4 := ts ! 3,
                    Op5 := ts ! 4, Op6 := ts ! 5\<rparr>, return_tag b, s', m'))"
  by (simp add: FinalizeResult_def slots_def bindE_def split: sum.splits prod.splits)

lemma FinishOp_mono:
  "FinishOp D t tg status mx m = Inr (t', s', m') \<Longrightarrow> s' \<Longrightarrow> status"
  by (cases t) (auto simp: bindE_eq_Inr split: if_splits option.splits)

lemma FinishOps_mono:
  "FinishOps D ts tg status mx m = Inr (ts', s', m') \<Longrightarrow> s' \<Longrightarrow> status"
proof (induction ts arbitrary: status m ts')
  case Nil
  then show ?case by simp
next
  case (Cons t ts)
  from Cons.prems(1) obtain t1 s1 m1 ts1 where
    a: "FinishOp D t tg status mx m = Inr (t1, s1, m1)" and
    b: "FinishOps D ts tg s1 mx m1 = Inr (ts1, s', m')"
    by (auto simp: bindE_eq_Inr)
  from Cons.IH [OF b Cons.prems(2)] have s1 .
  with FinishOp_mono [OF a] show ?case .
qed

lemma FinishOp_total:
  "null_safe t \<Longrightarrow> \<exists>t' s' m'. FinishOp D t tg status mx m = Inr (t', s', m')"
  by (cases t)
     (auto simp: FillMetadataMap_def call_Deserialize_def split: option.splits prod.splits)

lemma FinishOps_total:
  "list_all null_safe ts \<Longrightarrow> \<exists>ts' s' m'. FinishOps D ts tg status mx m = Inr (ts', s', m')"
proof (induction ts arbitrary: status m)
  case Nil
  then show ?case by simp
next
  case (Cons t ts)
  then have "null_safe t" and r: "list_all null_safe ts" by simp_all
  from FinishOp_total [OF this(1)] obtain t1 s1 m1 where
    a: "FinishOp D t tg status mx m = Inr (t1, s1, m1)" by blast
  from Cons.IH [OF r, of s1 m1] obtain ts1 s2 m2 where
    "FinishOps D ts tg s1 mx m1 = Inr (ts1, s2, m2)" by blast
  with a show ?case by simp
qed

lemma FinalizeResult_Inr:
  assumes "FinalizeResult D b tg status m = Inr (r, b', tg', s', m')"
  shows "r \<and> tg' = return_tag b \<and> (s' \<longrightarrow> status)"
  using assms FinishOps_mono [of D "slots b" tg status "max_message_size b" m _ s' m']
  by (auto simp: FinalizeResult_slots bindE_eq_Inr)

lemma FinalizeResult_total:
  assumes "list_all null_safe (slots b)"
  shows "\<exists>b' s' m'. FinalizeResult D b tg status m = Inr (True, b', return_tag b, s', m')"
proof -
  from FinishOps_total [OF assms] obtain ts' s' m' where
    "FinishOps D (slots b) tg status (max_message_size b) m = Inr (ts', s', m')" by blast
  then show ?thesis by (simp add: FinalizeResult_slots)
qed

lemma arm_slot_commute:
  "i \<noteq> j \<Longrightarrow> arm_slot i f (arm_slot j g b) = arm_slot j g (arm_slot i f b)"
  by (simp add: arm_slot_def)

lemma arm_all_permuted:
  assumes "distinct (map fst as)" and "mset as' = mset as"
  shows "arm_all as' b = arm_all as b"
proof -
  have "fold (\<lambda>(i, f). arm_slot i f) as = fold (\<lambda>(i, f). arm_slot i f) as'"
  proof (rule fold_multiset_equiv)
    fix x y :: "nat \<times> (trait \<Rightarrow> trait)"
    assume xy: "x \<in> set as" "y \<in> set as"
    show "(case x of (i, f) \<Rightarrow> arm_slot i f) \<circ> (case y of (i, f) \<Rightarrow> arm_slot i f) =
          (case y of (i, f) \<Rightarrow> arm_slot i f) \<circ> (case x of (i, f) \<Rightarrow> arm_slot i f)"
    proof (cases "x = y")
      case True
      then show ?thesis by simp
    next
      case False
      with xy assms(1) have "fst x \<noteq> fst y"
        by (meson distinct_map inj_onD)
      then show ?thesis
        by (cases x; cases y) (auto simp: fun_eq_iff arm_slot_commute)
    qed
  next
    show "mset as = mset as'" using assms(2) by simp
  qed
  then show ?thesis by (simp add: arm_all_def)
qed

lemma FillOps_kinds:
  assumes "nops + 6 \<le> length ops"
  shows "\<exists>ops' nops'. FillOps b ops nops = Inr (ops', nops') \<and>
           map op (take nops' ops') =
             map op (take nops ops) @ List.map_filter contributes (slots b)"
proof -
  from assms have "nops + length (slots b) \<le> length ops" by (simp add: slots_def)
  from AddOps_total [OF this] obtain ops' nops' where
    a: "AddOps (slots b) ops nops = Inr (ops', nops')" by blast
  from AddOps_kinds [OF a, THEN conjunct1] a show ?thesis by (simp add: FillOps_slots)
qed

lemma FinishOp_unarmed_others:
  assumes "\<not> armed t"
      and "\<forall>rtm rs arr scode sdetails cap. t \<noteq> CallOpClientRecvStatus rtm rs arr scode sdetails cap"
      and "\<forall>rim arr. t = CallOpRecvInitialMetadata rim arr \<longrightarrow> arr = []"
  shows "FinishOp D t tg status mx m = Inr (t, status, m)"
  using assms
  by (cases t) (auto simp: grpc_byte_buffer_destroy_def FillMetadataMap_def)

subsection \<open>Constructors and arming methods\<close>

lemma constructors_unarmed:
  "\<not> armed (new_CallOpSendInitialMetadata cnt md)"
  "\<not> armed new_CallOpSendMessage"
  "\<not> armed (new_CallOpRecvMessage recv_buf)"
  "\<not> armed (new_CallOpGenericRecvMessage recv_buf)"
  "\<not> armed new_CallOpClientSendClose"
  "\<not> armed (new_CallOpServerSendStatus scode cnt md)"
  "\<not> armed new_CallOpRecvInitialMetadata"
  "\<not> armed new_CallOpClientRecvStatus"
  by (simp_all add: new_CallOpSendInitialMetadata_def new_CallOpSendMessage_def
        new_CallOpRecvMessage_def new_CallOpGenericRecvMessage_def
        new_CallOpClientSendClose_def new_CallOpServerSendStatus_def
        new_CallOpRecvInitialMetadata_def new_CallOpClientRecvStatus_def)

lemma arming_methods_arm:
  "armed (SendInitialMetadata F metadata (new_CallOpSendInitialMetadata cnt md))"
  "armed (snd (SendMessage S message new_CallOpSendMessage)) \<longleftrightarrow>
     snd (S message None) \<noteq> None"
  "armed (RecvMessage (Some a) (new_CallOpRecvMessage recv_buf))"
  "armed (RecvMessage message (new_CallOpGenericRecvMessage recv_buf))"
  "armed (ClientSendClose new_CallOpClientSendClose)"
  "armed (ServerSendStatus F tm st (new_CallOpServerSendStatus scode cnt md))"
  "ClientRecvStatus (Some c) (Some a) new_CallOpClientRecvStatus =
     Inr (CallOpClientRecvStatus (Some (TrailingMetadataOf c)) (Some a) [] 0 None 0)"
  by (simp_all add: new_CallOpSendInitialMetadata_def new_CallOpSendMessage_def
        new_CallOpRecvMessage_def new_CallOpGenericRecvMessage_def
        new_CallOpClientSendClose_def new_CallOpServerSendStatus_def
        new_CallOpRecvInitialMetadata_def new_CallOpClientRecvStatus_def
        split: prod.splits)

lemma contributes_iff:
  "contributes t \<noteq> None \<longleftrightarrow> armed t \<or> is_CallOpServerSendStatus t"
  by (cases t) auto

lemma length_contributions:
  "length (List.map_filter contributes ts) =
     length (filter (\<lambda>t. armed t \<or> is_CallOpServerSendStatus t) ts)"
proof (induction ts)
  case Nil
  then show ?case by (simp add: List.map_filter_simps)
next
  case (Cons t ts)
  then show ?case
    using contributes_iff [of t]
    by (cases "contributes t") (auto simp: List.map_filter_simps)
qed

subsection \<open>The claims\<close>

text \<open>
  C1. The claim: after \<open>FillOps\<close> the number of operations appended equals the number of
  armed traits, an unarmed trait appending nothing. \<open>CallOpServerSendStatus::AddOp\<close> is the
  one \<open>AddOp\<close> without a guard: it never reads \<open>send_status_available_\<close>. A batch whose
  only trait is a freshly constructed, never armed \<open>CallOpServerSendStatus\<close> has no armed
  trait, and \<open>FillOps\<close> appends one operation, \<open>GRPC_OP_SEND_STATUS_FROM_SERVER\<close>.
\<close>

theorem FillOps_unarmed_ServerSendStatus_appends:
  "FillOps (new_CallOpSet this (new_CallOpServerSendStatus scode cnt md)
              CallNoOp CallNoOp CallNoOp CallNoOp CallNoOp) [blank_op] 0 =
     Inr ([\<lparr>op = GRPC_OP_SEND_STATUS_FROM_SERVER,
            data = data_send_status_from_server cnt md scode None\<rparr>], 1) \<and>
   filter armed (slots (new_CallOpSet this (new_CallOpServerSendStatus scode cnt md)
              CallNoOp CallNoOp CallNoOp CallNoOp CallNoOp)) = []"
  by (simp add: FillOps_def new_CallOpSet_def new_CallOpServerSendStatus_def next_op_def
        blank_op_def slots_def)

text \<open>
  C2, as the code has it. With an armed receive trait, \<open>*status\<close> true and a buffer
  delivered, \<open>FinishOp\<close> sets \<open>got_message = true\<close> before it calls the decoder and assigns
  only \<open>*status\<close> from the decoder's result. So when the decoder fails, \<open>*status\<close> is false
  afterwards and \<open>got_message\<close> is true, not false. The claim as stated is refuted by the
  typed receive trait at a buffer of size 7 under the bound 5.
\<close>

theorem RecvMessage_parse_failure_counterexample:
  "outcome (FinishOp bounded_Deserialize (CallOpRecvMessage False (Some 0) (Some 7)) 0 True 5 memory0) =
     Some (True, False) \<and>
   outcome (FinishOp bounded_Deserialize (CallOpRecvMessage False (Some 0) (Some 7)) 0 True 5 memory0) \<noteq>
     Some (False, False)"
  by (simp add: call_Deserialize_def bounded_Deserialize_def memory0_def IsOk_def outcome_def)

text \<open>
  C2, amended: for an armed receive trait of either class, \<open>*status\<close> true and a buffer
  delivered, a decoder that does not return OK leaves \<open>got_message\<close> true and \<open>*status\<close>
  false; the decoder has been called once and the message object is as it left it.
\<close>

theorem RecvMessage_parse_failure_keeps_got_message:
  assumes "\<not> IsOk (fst (D b mx (messages m a)))"
  shows "FinishOp D (CallOpRecvMessage got (Some a) (Some b)) tg True mx m =
           Inr (CallOpRecvMessage True (Some a) (Some b), False,
                m\<lparr>messages := (messages m)(a := snd (D b mx (messages m a))),
                  calls := calls m @ [Call_Deserialize b mx]\<rparr>) \<and>
         FinishOp D (CallOpGenericRecvMessage got (Some (Some a)) (Some b)) tg True mx m =
           Inr (CallOpGenericRecvMessage True (Some (Some a)) (Some b), False,
                m\<lparr>messages := (messages m)(a := snd (D b mx (messages m a))),
                  calls := calls m @ [Call_Deserialize b mx]\<rparr>)"
  using assms by (auto simp: call_Deserialize_def split: prod.splits)

text \<open>C2, amended, at the buffer of size 7 under the bound 5, for both classes.\<close>

theorem RecvMessage_parse_failure_keeps_got_message_witness:
  "\<not> IsOk (fst (bounded_Deserialize 7 5 (messages memory0 0))) \<and>
   outcome (FinishOp bounded_Deserialize (CallOpRecvMessage False (Some 0) (Some 7)) 0 True 5 memory0) =
     Some (True, False) \<and>
   outcome (FinishOp bounded_Deserialize (CallOpGenericRecvMessage False (Some (Some 0)) (Some 7)) 0 True 5 memory0) =
     Some (True, False)"
proof -
  have h: "\<not> IsOk (fst (bounded_Deserialize 7 5 (messages memory0 0)))"
    by (simp add: bounded_Deserialize_def IsOk_def)
  from RecvMessage_parse_failure_keeps_got_message [where D = bounded_Deserialize and b = 7 and mx = 5 and m = memory0
                  and a = 0 and got = False and tg = 0] h
  show ?thesis
    by (simp add: outcome_def)
qed

text \<open>
  C3. The claim: \<open>FinishOp\<close> of a trait that was never armed changes nothing.
  \<open>CallOpClientRecvStatus::FinishOp\<close> has no guard (its \<open>AddOp\<close> tests
  \<open>recv_status_ == nullptr\<close>, its \<open>FinishOp\<close> does not): on a freshly constructed trait it
  assigns through the null \<open>recv_status_\<close>, and so does \<open>FinalizeResult\<close> of a batch that
  holds such a trait.
\<close>

theorem FinishOp_unarmed_ClientRecvStatus_null:
  "FinishOp D new_CallOpClientRecvStatus tg status mx m = Inl NullPointer \<and>
   \<not> armed new_CallOpClientRecvStatus \<and>
   FinalizeResult D (new_CallOpSet this new_CallOpClientRecvStatus
                      CallNoOp CallNoOp CallNoOp CallNoOp CallNoOp) tg status m =
     Inl NullPointer"
  by (simp add: new_CallOpClientRecvStatus_def FillMetadataMap_def FinalizeResult_def
        new_CallOpSet_def)

text \<open>
  C4. The claim: \<open>SneakyCallOpSet::FinalizeResult\<close> returns false whichever traits are
  armed, the inherited side effects having run. It runs the inherited \<open>FinalizeResult\<close>
  first, and that one does not return when a slot holds a \<open>CallOpClientRecvStatus\<close> that
  was never armed: the unguarded \<open>FinishOp\<close> of that class writes through the null
  \<open>recv_status_\<close>. A sneaky batch of an armed \<open>CallOpRecvMessage\<close> and a freshly constructed
  \<open>CallOpClientRecvStatus\<close> stops there, for every incoming flag, and returns nothing.
\<close>

theorem SneakyFinalizeResult_unarmed_ClientRecvStatus_null:
  "SneakyFinalizeResult D
     (new_CallOpSet this (CallOpRecvMessage got (Some a) recv_buf) new_CallOpClientRecvStatus
        CallNoOp CallNoOp CallNoOp CallNoOp) tg status m = Inl NullPointer \<and>
   FinalizeResult D
     (new_CallOpSet this (CallOpRecvMessage got (Some a) recv_buf) new_CallOpClientRecvStatus
        CallNoOp CallNoOp CallNoOp CallNoOp) tg status m = Inl NullPointer \<and>
   armed (CallOpRecvMessage got (Some a) recv_buf) \<and> \<not> armed new_CallOpClientRecvStatus"
  by (cases recv_buf; cases status)
     (simp_all add: SneakyFinalizeResult_def FinalizeResult_def new_CallOpSet_def
        new_CallOpClientRecvStatus_def FillMetadataMap_def call_Deserialize_def
        grpc_byte_buffer_destroy_def split: prod.splits)

text \<open>
  C5. \<open>*status\<close> is never set from false to true: if it is false on entry to a
  \<open>FinishOp\<close>, to a run of \<open>FinishOp\<close>s over any list of slots, or to \<open>FinalizeResult\<close>,
  it is false on exit. And the exit is reached: with the flag false, a trait that reaches
  through no null pointer returns, and so does a batch of such traits.
\<close>

theorem success_flag_never_upgraded:
  "(FinishOp D t tg False mx m = Inr (t', s', m') \<longrightarrow> \<not> s') \<and>
   (FinishOps D ts tg False mx m = Inr (ts', s'', m'') \<longrightarrow> \<not> s'') \<and>
   (FinalizeResult D b tg False m = Inr (r, b', tg', s''', m''') \<longrightarrow> \<not> s''') \<and>
   (null_safe t \<longrightarrow> (\<exists>t1 m1. FinishOp D t tg False mx m = Inr (t1, False, m1))) \<and>
   (list_all null_safe (slots b) \<longrightarrow>
      (\<exists>b1 m1. FinalizeResult D b tg False m = Inr (True, b1, return_tag b, False, m1)))"
proof (intro conjI impI)
  assume "FinishOp D t tg False mx m = Inr (t', s', m')"
  from FinishOp_mono [OF this] show "\<not> s'" by blast
next
  assume "FinishOps D ts tg False mx m = Inr (ts', s'', m'')"
  from FinishOps_mono [OF this] show "\<not> s''" by blast
next
  assume "FinalizeResult D b tg False m = Inr (r, b', tg', s''', m''')"
  from FinalizeResult_Inr [OF this] show "\<not> s'''" by blast
next
  assume "null_safe t"
  from FinishOp_total [OF this, of D tg False mx m] obtain t1 s1 m1 where
    a: "FinishOp D t tg False mx m = Inr (t1, s1, m1)" by blast
  from FinishOp_mono [OF a] have "\<not> s1" by blast
  with a show "\<exists>t1 m1. FinishOp D t tg False mx m = Inr (t1, False, m1)" by auto
next
  assume "list_all null_safe (slots b)"
  from FinalizeResult_total [OF this, of D tg False m] obtain b1 s1 m1 where
    a: "FinalizeResult D b tg False m = Inr (True, b1, return_tag b, s1, m1)" by blast
  from FinalizeResult_Inr [OF a] have "\<not> s1" by blast
  with a show "\<exists>b1 m1. FinalizeResult D b tg False m = Inr (True, b1, return_tag b, False, m1)"
    by auto
qed

text \<open>C5 at a batch of a send trait and an armed receive trait with a buffer delivered.\<close>

theorem success_flag_never_upgraded_witness:
  "null_safe (CallOpRecvMessage True (Some 0) (Some 7)) \<and>
   list_all null_safe
     (slots (new_CallOpSet 9 new_CallOpSendMessage (CallOpRecvMessage True (Some 0) (Some 7))
               CallNoOp CallNoOp CallNoOp CallNoOp)) \<and>
   (\<exists>t1 m1. FinishOp bounded_Deserialize (CallOpRecvMessage True (Some 0) (Some 7)) 0 False 5
              memory0 = Inr (t1, False, m1)) \<and>
   (\<exists>b1 m1. FinalizeResult bounded_Deserialize
              (new_CallOpSet 9 new_CallOpSendMessage (CallOpRecvMessage True (Some 0) (Some 7))
                 CallNoOp CallNoOp CallNoOp CallNoOp) 0 False memory0 =
            Inr (True, b1, 9, False, m1))"
  using success_flag_never_upgraded [where D = bounded_Deserialize and t = "CallOpRecvMessage True (Some 0) (Some 7)"
      and tg = 0 and mx = 5 and m = memory0
      and b = "new_CallOpSet 9 new_CallOpSendMessage (CallOpRecvMessage True (Some 0) (Some 7))
                 CallNoOp CallNoOp CallNoOp CallNoOp"]
  by (simp add: slots_def new_CallOpSet_def new_CallOpSendMessage_def)

text \<open>
  C6. An armed \<open>CallOpClientRecvStatus\<close> (armed by \<open>ClientRecvStatus(context, status)\<close>
  with context \<open>c\<close> and status object \<open>a\<close>): for either value of \<open>*status\<close>, \<open>FinishOp\<close>
  returns, leaves \<open>*status\<close> as it is, adds the entries of the native array to the
  context's trailing metadata, and writes into the caller's \<open>Status\<close> the native code and
  the native detail string, the empty string when the detail pointer is null.
\<close>

theorem ClientRecvStatus_FinishOp_fills_status:
  "\<exists>m'. FinishOp D (CallOpClientRecvStatus (Some (TrailingMetadataOf c)) (Some a) arr
                      scode sdetails cap) tg status mx m =
          Inr (CallOpClientRecvStatus (Some (TrailingMetadataOf c)) (Some a) []
                 scode sdetails cap, status, m') \<and>
        trailing_metadata (contexts m' c) = trailing_metadata (contexts m c) + mset arr \<and>
        statuses m' a =
          \<lparr>code = scode, details = (case sdetails of None \<Rightarrow> [] | Some s \<Rightarrow> s)\<rparr> \<and>
        messages m' = messages m \<and> calls m' = calls m"
  by (cases sdetails) (auto simp: FillMetadataMap_def multimap_insert_def)

text \<open>
  C7, as the code has it. The order is that of the slots \<open>Op1\<close> to \<open>Op6\<close>, but which class
  sits in which slot is the choice of whoever instantiates \<open>CallOpSet<Op1, ..., Op6>\<close>: the
  sequence of kinds the specification lists is not fixed by the code. The claim as stated
  is refuted by \<open>CallOpSet<CallOpClientRecvStatus, CallOpSendInitialMetadata>\<close>, both armed,
  whose operations come out as receive-status, send-initial-metadata.
\<close>

theorem slot_order_counterexample:
  "op_types (FillOps (new_CallOpSet 9
                (CallOpClientRecvStatus (Some (TrailingMetadataOf 0)) (Some 1) [] 0 None 0)
                (CallOpSendInitialMetadata True 0 [])
                CallNoOp CallNoOp CallNoOp CallNoOp) [blank_op, blank_op] 0) =
     [GRPC_OP_RECV_STATUS_ON_CLIENT, GRPC_OP_SEND_INITIAL_METADATA] \<and>
   \<not> sorted (map spec_slot_order
       (op_types (FillOps (new_CallOpSet 9
                (CallOpClientRecvStatus (Some (TrailingMetadataOf 0)) (Some 1) [] 0 None 0)
                (CallOpSendInitialMetadata True 0 [])
                CallNoOp CallNoOp CallNoOp CallNoOp) [blank_op, blank_op] 0)))"
  by (simp add: op_types_def FillOps_def new_CallOpSet_def next_op_def blank_op_def)

text \<open>
  C7, amended: arming the slots in another order gives the same batch; \<open>FillOps\<close> appends
  to the entries already there what the slots contribute, from \<open>Op1\<close> to \<open>Op6\<close>, whatever
  class each slot holds; \<open>FinalizeResult\<close> is the run of \<open>FinishOp\<close> over the slots from
  \<open>Op1\<close> to \<open>Op6\<close>.
\<close>

theorem order_is_slot_order:
  "(distinct (map fst as) \<and> mset as' = mset as \<longrightarrow> arm_all as' b = arm_all as b) \<and>
   (nops + 6 \<le> length ops \<longrightarrow>
      (\<exists>ops' nops'. FillOps b ops nops = Inr (ops', nops') \<and>
         map op (take nops' ops') =
           map op (take nops ops) @
           List.map_filter contributes [Op1 b, Op2 b, Op3 b, Op4 b, Op5 b, Op6 b])) \<and>
   FinalizeResult D b tg status m =
     bindE (FinishOps D [Op1 b, Op2 b, Op3 b, Op4 b, Op5 b, Op6 b] tg status
              (max_message_size b) m)
       (\<lambda>(ts, s', m').
          Inr (True, b\<lparr>Op1 := ts ! 0, Op2 := ts ! 1, Op3 := ts ! 2, Op4 := ts ! 3,
                       Op5 := ts ! 4, Op6 := ts ! 5\<rparr>, return_tag b, s', m'))"
  using arm_all_permuted [of as as' b] FillOps_kinds [of nops ops b]
    FinalizeResult_slots [of D b tg status m]
  by (simp add: slots_def)

text \<open>
  C7, amended, at a batch with \<open>CallOpClientSendClose\<close> in slot 1 and \<open>CallOpRecvMessage\<close> in
  slot 3, armed in the order 3, 1: the operations are send-close, receive-message.
\<close>

theorem order_is_slot_order_witness:
  "distinct (map fst [(1::nat, ClientSendClose), (3, RecvMessage (Some 0))]) \<and>
   mset [(3, RecvMessage (Some 0)), (1::nat, ClientSendClose)] =
     mset [(1, ClientSendClose), (3, RecvMessage (Some 0))] \<and>
   arm_all [(3, RecvMessage (Some 0)), (1, ClientSendClose)]
       (new_CallOpSet 9 new_CallOpClientSendClose CallNoOp (new_CallOpRecvMessage None)
          CallNoOp CallNoOp CallNoOp) =
     arm_all [(1, ClientSendClose), (3, RecvMessage (Some 0))]
       (new_CallOpSet 9 new_CallOpClientSendClose CallNoOp (new_CallOpRecvMessage None)
          CallNoOp CallNoOp CallNoOp) \<and>
   (0::nat) + 6 \<le> length (replicate 6 blank_op) \<and>
   (\<exists>ops' nops'.
      FillOps (arm_all [(3, RecvMessage (Some 0)), (1, ClientSendClose)]
                 (new_CallOpSet 9 new_CallOpClientSendClose CallNoOp (new_CallOpRecvMessage None)
                    CallNoOp CallNoOp CallNoOp)) (replicate 6 blank_op) 0 = Inr (ops', nops') \<and>
      map op (take nops' ops') = [GRPC_OP_SEND_CLOSE_FROM_CLIENT, GRPC_OP_RECV_MESSAGE])"
proof -
  let ?b = "new_CallOpSet 9 new_CallOpClientSendClose CallNoOp (new_CallOpRecvMessage None)
          CallNoOp CallNoOp CallNoOp"
  let ?as = "[(1::nat, ClientSendClose), (3, RecvMessage (Some 0))]"
  let ?as' = "[(3::nat, RecvMessage (Some 0)), (1, ClientSendClose)]"
  have d: "distinct (map fst ?as)" by simp
  have p: "mset ?as' = mset ?as" by simp
  have e: "arm_all ?as' ?b = arm_all ?as ?b"
    using order_is_slot_order [where as = ?as and as' = ?as' and b = ?b] d p by blast
  have c: "List.map_filter contributes
             [Op1 (arm_all ?as' ?b), Op2 (arm_all ?as' ?b), Op3 (arm_all ?as' ?b),
              Op4 (arm_all ?as' ?b), Op5 (arm_all ?as' ?b), Op6 (arm_all ?as' ?b)] =
           [GRPC_OP_SEND_CLOSE_FROM_CLIENT, GRPC_OP_RECV_MESSAGE]"
    by (simp add: arm_all_def arm_slot_def new_CallOpSet_def new_CallOpClientSendClose_def
          new_CallOpRecvMessage_def List.map_filter_simps)
  have l: "(0::nat) + 6 \<le> length (replicate 6 blank_op)" by simp
  note k = order_is_slot_order [where b = "arm_all ?as' ?b" and nops = 0 and ops = "replicate 6 blank_op",
      THEN conjunct2, THEN conjunct1, THEN mp, OF l]
  from k [unfolded c]
  have "\<exists>ops' nops'. FillOps (arm_all ?as' ?b) (replicate 6 blank_op) 0 = Inr (ops', nops') \<and>
      map op (take nops' ops') = [GRPC_OP_SEND_CLOSE_FROM_CLIENT, GRPC_OP_RECV_MESSAGE]"
    by simp
  with d p e l show ?thesis by blast
qed

text \<open>
  C8. An armed receive trait, \<open>*status\<close> false and a buffer delivered: \<open>FinishOp\<close> makes
  one collaborator call, the release of the buffer, and none to the decoder;
  \<open>got_message\<close> is false, \<open>*status\<close> stays false, and the memory, the caller's message
  object with it, is otherwise as before.
\<close>

theorem RecvMessage_transport_failure_releases_buffer:
  "FinishOp D (CallOpRecvMessage got (Some a) (Some b)) tg False mx m =
     Inr (CallOpRecvMessage False (Some a) (Some b), False,
          m\<lparr>calls := calls m @ [Call_grpc_byte_buffer_destroy b]\<rparr>) \<and>
   FinishOp D (CallOpGenericRecvMessage got (Some msg) (Some b)) tg False mx m =
     Inr (CallOpGenericRecvMessage False (Some msg) (Some b), False,
          m\<lparr>calls := calls m @ [Call_grpc_byte_buffer_destroy b]\<rparr>)"
  by (simp add: grpc_byte_buffer_destroy_def)

text \<open>
  C9. An armed receive trait, \<open>*status\<close> true and no buffer delivered: after \<open>FinishOp\<close>
  \<open>got_message\<close> is false and \<open>*status\<close> is false; nothing else changes.
\<close>

theorem RecvMessage_no_buffer_forces_failure:
  "FinishOp D (CallOpRecvMessage got (Some a) None) tg True mx m =
     Inr (CallOpRecvMessage False (Some a) None, False, m) \<and>
   FinishOp D (CallOpGenericRecvMessage got (Some msg) None) tg True mx m =
     Inr (CallOpGenericRecvMessage False (Some msg) None, False, m)"
  by simp

text \<open>
  C10. \<open>RecvInitialMetadata(context)\<close> itself, with no \<open>FillOps\<close> and no \<open>FinalizeResult\<close>
  run, sets \<open>initial_metadata_received_\<close> of the context, and arms the trait.
\<close>

theorem RecvInitialMetadata_marks_context_at_arm_time:
  "\<exists>t' m'. RecvInitialMetadata (Some c) (CallOpRecvInitialMetadata rim arr) m = Inr (t', m') \<and>
           initial_metadata_received (contexts m' c) \<and> armed t'"
  by simp

subsection \<open>Further properties\<close>

text \<open>
  What \<open>FillOps\<close> appends, given room for six entries: one operation for every slot that is
  armed or holds a \<open>CallOpServerSendStatus\<close>, armed or not.
\<close>

theorem FillOps_appends_armed_and_ServerSendStatus:
  assumes "nops + 6 \<le> length ops"
  shows "\<exists>ops' nops'. FillOps b ops nops = Inr (ops', nops') \<and>
           nops' = nops + length (filter (\<lambda>t. armed t \<or> is_CallOpServerSendStatus t) (slots b))"
proof -
  from assms have "nops + length (slots b) \<le> length ops" by (simp add: slots_def)
  from AddOps_total [OF this] obtain ops' nops' where
    a: "AddOps (slots b) ops nops = Inr (ops', nops')" by blast
  from AddOps_kinds [OF a, THEN conjunct2] a show ?thesis
    by (simp add: FillOps_slots length_contributions)
qed

text \<open>The same at a batch that holds an armed send, an unarmed \<open>CallOpServerSendStatus\<close>
  and an unarmed \<open>CallOpClientSendClose\<close>: two operations.\<close>

theorem FillOps_appends_armed_and_ServerSendStatus_witness:
  "(0::nat) + 6 \<le> length (replicate 6 blank_op) \<and>
   (\<exists>ops' nops'.
      FillOps (new_CallOpSet 9 (CallOpSendMessage (Some 4)) (new_CallOpServerSendStatus 0 0 [])
                 CallNoOp new_CallOpClientSendClose CallNoOp CallNoOp)
        (replicate 6 blank_op) 0 = Inr (ops', nops') \<and> nops' = 2)"
  using FillOps_appends_armed_and_ServerSendStatus
    [where nops = 0 and ops = "replicate 6 blank_op"
       and b = "new_CallOpSet 9 (CallOpSendMessage (Some 4)) (new_CallOpServerSendStatus 0 0 [])
                CallNoOp new_CallOpClientSendClose CallNoOp CallNoOp"]
  by (simp add: slots_def new_CallOpSet_def new_CallOpServerSendStatus_def
        new_CallOpClientSendClose_def numeral_2_eq_2)

text \<open>
  \<open>FinishOp\<close> of a freshly constructed trait of any class but \<open>CallOpClientRecvStatus\<close>
  leaves the trait, \<open>*status\<close> and the memory as they are.
\<close>

theorem FinishOp_fresh_trait_unchanged:
  "FinishOp D CallNoOp tg status mx m = Inr (CallNoOp, status, m) \<and>
   FinishOp D (new_CallOpSendInitialMetadata cnt md) tg status mx m =
     Inr (new_CallOpSendInitialMetadata cnt md, status, m) \<and>
   FinishOp D new_CallOpSendMessage tg status mx m = Inr (new_CallOpSendMessage, status, m) \<and>
   FinishOp D (new_CallOpRecvMessage recv_buf) tg status mx m =
     Inr (new_CallOpRecvMessage recv_buf, status, m) \<and>
   FinishOp D (new_CallOpGenericRecvMessage recv_buf) tg status mx m =
     Inr (new_CallOpGenericRecvMessage recv_buf, status, m) \<and>
   FinishOp D new_CallOpClientSendClose tg status mx m =
     Inr (new_CallOpClientSendClose, status, m) \<and>
   FinishOp D (new_CallOpServerSendStatus scode n md') tg status mx m =
     Inr (new_CallOpServerSendStatus scode n md', status, m) \<and>
   FinishOp D new_CallOpRecvInitialMetadata tg status mx m =
     Inr (new_CallOpRecvInitialMetadata, status, m)"
  by (simp add: new_CallOpSendInitialMetadata_def new_CallOpSendMessage_def
        new_CallOpRecvMessage_def new_CallOpGenericRecvMessage_def
        new_CallOpClientSendClose_def new_CallOpServerSendStatus_def
        new_CallOpRecvInitialMetadata_def grpc_byte_buffer_destroy_def FillMetadataMap_def)

text \<open>
  What holds of \<open>SneakyCallOpSet::FinalizeResult\<close>: it never returns true; whenever the
  inherited \<open>FinalizeResult\<close> returns, the sneaky one returns false and leaves the batch,
  the tag, \<open>*status\<close> and the memory exactly as the inherited one does; and the inherited
  one returns (true, with the return tag written) for every incoming flag whenever no
  slot reaches through a null pointer.
\<close>

theorem SneakyCallOpSet_FinalizeResult_false:
  "(SneakyFinalizeResult D b tg status m = Inr (r, x) \<longrightarrow> r = False) \<and>
   (FinalizeResult D b tg status m = Inr (r', x') \<longrightarrow>
      SneakyFinalizeResult D b tg status m = Inr (False, x')) \<and>
   (list_all null_safe (slots b) \<longrightarrow>
      (\<exists>b' s' m'. FinalizeResult D b tg status m = Inr (True, b', return_tag b, s', m') \<and>
                  SneakyFinalizeResult D b tg status m = Inr (False, b', return_tag b, s', m')))"
proof (intro conjI impI)
  assume "SneakyFinalizeResult D b tg status m = Inr (r, x)"
  then show "r = False"
    by (auto simp: SneakyFinalizeResult_def bindE_eq_Inr)
next
  assume "FinalizeResult D b tg status m = Inr (r', x')"
  then show "SneakyFinalizeResult D b tg status m = Inr (False, x')"
    by (simp add: SneakyFinalizeResult_def)
next
  assume "list_all null_safe (slots b)"
  from FinalizeResult_total [OF this, of D tg status m]
  show "\<exists>b' s' m'. FinalizeResult D b tg status m = Inr (True, b', return_tag b, s', m') \<and>
                  SneakyFinalizeResult D b tg status m = Inr (False, b', return_tag b, s', m')"
    by (auto simp: SneakyFinalizeResult_def)
qed

text \<open>
  The same at a sneaky batch whose armed receive trait decodes a buffer of size 3 under
  the bound 10: the result is false, and the message object holds the decoded value.
\<close>

theorem SneakyCallOpSet_FinalizeResult_false_witness:
  "list_all null_safe
     (slots (set_max_message_size 10
        (new_CallOpSet 9 (CallOpRecvMessage False (Some 0) (Some 3))
           CallNoOp CallNoOp CallNoOp CallNoOp CallNoOp))) \<and>
   (\<exists>b' m'. SneakyFinalizeResult bounded_Deserialize
      (set_max_message_size 10
        (new_CallOpSet 9 (CallOpRecvMessage False (Some 0) (Some 3))
           CallNoOp CallNoOp CallNoOp CallNoOp CallNoOp)) 0 True memory0 =
      Inr (False, b', 9, True, m') \<and> messages m' 0 = 3 \<and> got_message (Op1 b'))"
proof -
  let ?b = "set_max_message_size 10
        (new_CallOpSet 9 (CallOpRecvMessage False (Some 0) (Some 3))
           CallNoOp CallNoOp CallNoOp CallNoOp CallNoOp)"
  have f: "FinalizeResult bounded_Deserialize ?b 0 True memory0 =
      Inr (True, ?b\<lparr>Op1 := CallOpRecvMessage True (Some 0) (Some 3)\<rparr>, 9, True,
           memory0\<lparr>messages := (messages memory0)(0 := 3),
                   calls := calls memory0 @ [Call_Deserialize 3 10]\<rparr>)"
    by (simp add: FinalizeResult_def set_max_message_size_def new_CallOpSet_def
          call_Deserialize_def bounded_Deserialize_def IsOk_def)
  have n: "list_all null_safe (slots ?b)"
    by (simp add: slots_def set_max_message_size_def new_CallOpSet_def)
  from SneakyCallOpSet_FinalizeResult_false [where D = bounded_Deserialize and b = ?b and tg = 0 and status = True
      and m = memory0 and r' = True
      and x' = "(?b\<lparr>Op1 := CallOpRecvMessage True (Some 0) (Some 3)\<rparr>, 9, True,
           memory0\<lparr>messages := (messages memory0)(0 := 3),
                   calls := calls memory0 @ [Call_Deserialize 3 10]\<rparr>)"] f
  have "SneakyFinalizeResult bounded_Deserialize ?b 0 True memory0 =
      Inr (False, ?b\<lparr>Op1 := CallOpRecvMessage True (Some 0) (Some 3)\<rparr>, 9, True,
           memory0\<lparr>messages := (messages memory0)(0 := 3),
                   calls := calls memory0 @ [Call_Deserialize 3 10]\<rparr>)"
    by simp
  with n show ?thesis by simp
qed

end
